theory Spec2Isabelle
  imports Main "HOL-Library.Char_ord" "HOL-Library.List_Lexorder"
begin

section \<open>Strings, escaping and encodings used by the client\<close>

text \<open>
  Go strings are byte sequences and compare byte-wise; they are modelled as \<open>string\<close>
  (a list of 8-bit characters) with the lexicographic order on lists of characters.
  The functions of this section are the parts of Go's \<open>net/url\<close>, \<open>encoding/base64\<close>
  and \<open>fmt\<close> packages that the client calls.
\<close>

definition isAlnum :: "char \<Rightarrow> bool" where
  "isAlnum c \<longleftrightarrow>
     (CHR ''a'' \<le> c \<and> c \<le> CHR ''z'') \<or> (CHR ''A'' \<le> c \<and> c \<le> CHR ''Z'') \<or>
     (CHR ''0'' \<le> c \<and> c \<le> CHR ''9'')"

text \<open>\<open>shouldEscape\<close> of \<open>net/url\<close> in the mode \<open>encodeQueryComponent\<close>: only letters,
  digits and the four marks \<open>- _ . ~\<close> are left alone.\<close>

definition shouldEscape :: "char \<Rightarrow> bool" where
  "shouldEscape c \<longleftrightarrow> \<not> (isAlnum c \<or> c \<in> set ''-_.~'')"

definition upperhex :: string where
  "upperhex = ''0123456789ABCDEF''"

definition lowerhex :: string where
  "lowerhex = ''0123456789abcdef''"

definition escape_byte :: "char \<Rightarrow> string" where
  "escape_byte c =
     (if c = CHR '' '' then ''+''
      else if shouldEscape c
        then [CHR ''%'', upperhex ! ((of_char c :: nat) div 16), upperhex ! ((of_char c :: nat) mod 16)]
        else [c])"

definition QueryEscape :: "string \<Rightarrow> string" where
  "QueryEscape s = concat (map escape_byte s)"

definition ishex :: "char \<Rightarrow> bool" where
  "ishex c \<longleftrightarrow>
     (CHR ''0'' \<le> c \<and> c \<le> CHR ''9'') \<or> (CHR ''a'' \<le> c \<and> c \<le> CHR ''f'') \<or>
     (CHR ''A'' \<le> c \<and> c \<le> CHR ''F'')"

definition unhex :: "char \<Rightarrow> nat" where
  "unhex c =
     (if CHR ''0'' \<le> c \<and> c \<le> CHR ''9'' then of_char c - 48
      else if CHR ''a'' \<le> c \<and> c \<le> CHR ''f'' then of_char c - 97 + 10
      else if CHR ''A'' \<le> c \<and> c \<le> CHR ''F'' then of_char c - 65 + 10
      else 0)"

text \<open>\<open>QueryUnescape\<close>: \<open>None\<close> stands for the \<open>EscapeError\<close> that a \<open>%\<close> without two
  hexadecimal digits after it gives.\<close>

fun QueryUnescape :: "string \<Rightarrow> string option" where
  "QueryUnescape [] = Some []"
| "QueryUnescape (c # s) =
     (if c = CHR ''%'' then
        (case s of
           h1 # h2 # rest \<Rightarrow>
             (if ishex h1 \<and> ishex h2
              then map_option ((#) (char_of (unhex h1 * 16 + unhex h2))) (QueryUnescape rest)
              else None)
         | _ \<Rightarrow> None)
      else if c = CHR ''+'' then map_option ((#) CHR '' '') (QueryUnescape s)
      else map_option ((#) c) (QueryUnescape s))"

text \<open>\<open>fmt.Sprintf("%x", b)\<close> on a byte slice: two lower-case digits a byte.\<close>

definition hex_byte :: "char \<Rightarrow> string" where
  "hex_byte c = [lowerhex ! ((of_char c :: nat) div 16), lowerhex ! ((of_char c :: nat) mod 16)]"

definition Sprintf_x :: "string \<Rightarrow> string" where
  "Sprintf_x b = concat (map hex_byte b)"

text \<open>\<open>base64.StdEncoding.EncodeToString\<close>, with padding.\<close>

definition encodeStd :: string where
  "encodeStd = ''ABCDEFGHIJKLMNOPQRSTUVWXYZabcdefghijklmnopqrstuvwxyz0123456789+/''"

fun b64 :: "nat list \<Rightarrow> string" where
  "b64 [] = []"
| "b64 [a] = [encodeStd ! (a div 4), encodeStd ! ((a mod 4) * 16), CHR ''='', CHR ''='']"
| "b64 [a, b] =
     [encodeStd ! (a div 4), encodeStd ! ((a mod 4) * 16 + b div 16),
      encodeStd ! ((b mod 16) * 4), CHR ''='']"
| "b64 (a # b # c # rest) =
     [encodeStd ! (a div 4), encodeStd ! ((a mod 4) * 16 + b div 16),
      encodeStd ! ((b mod 16) * 4 + c div 64), encodeStd ! (c mod 64)] @ b64 rest"

definition EncodeToString :: "string \<Rightarrow> string" where
  "EncodeToString b = b64 (map of_char b)"

text \<open>\<open>%d\<close> of \<open>fmt\<close> on an \<open>int\<close>.\<close>

fun digits :: "nat \<Rightarrow> string" where
  "digits n =
     (if n < 10 then [''0123456789'' ! n] else digits (n div 10) @ [''0123456789'' ! (n mod 10)])"

declare digits.simps [simp del]

definition Sprintf_d :: "int \<Rightarrow> string" where
  "Sprintf_d i = (if i < 0 then CHR ''-'' # digits (nat (- i)) else digits (nat i))"

section \<open>\<open>url.Values\<close>\<close>

text \<open>
  \<open>url.Values\<close> is \<open>map[string][]string\<close>. It is modelled as an association list with
  one entry a key; the order of the entries stands for the order in which a \<open>range\<close>
  loop happens to visit the map, which Go leaves unspecified.
\<close>

type_synonym Values = "(string \<times> string list) list"

text \<open>\<open>m[key] = vs\<close> on a Go map, and \<open>m[key]\<close> on \<open>url.Values\<close> (nil when absent).\<close>

definition lookup :: "Values \<Rightarrow> string \<Rightarrow> string list" where
  "lookup v key = (case map_of v key of None \<Rightarrow> [] | Some vs \<Rightarrow> vs)"

fun store :: "('k \<times> 'v) list \<Rightarrow> 'k \<Rightarrow> 'v \<Rightarrow> ('k \<times> 'v) list" where
  "store [] key vs = [(key, vs)]"
| "store ((k, ws) # v) key vs = (if k = key then (k, vs) # v else (k, ws) # store v key vs)"

definition Values_Get :: "Values \<Rightarrow> string \<Rightarrow> string" where
  "Values_Get v key = (case lookup v key of [] \<Rightarrow> [] | x # _ \<Rightarrow> x)"

definition Values_Set :: "Values \<Rightarrow> string \<Rightarrow> string \<Rightarrow> Values" where
  "Values_Set v key val = store v key [val]"

definition Values_Add :: "Values \<Rightarrow> string \<Rightarrow> string \<Rightarrow> Values" where
  "Values_Add v key val = store v key (lookup v key @ [val])"

text \<open>\<open>Values.Encode\<close>: keys sorted, every value of a key written as an escaped pair, an
  ampersand before every pair but the first.\<close>

fun Encode_values :: "string \<Rightarrow> string list \<Rightarrow> string \<Rightarrow> string" where
  "Encode_values keyEscaped [] buf = buf"
| "Encode_values keyEscaped (val # vs) buf =
     Encode_values keyEscaped vs
       ((if length buf > 0 then buf @ ''&'' else buf) @ keyEscaped @ ''='' @ QueryEscape val)"

fun Encode_keys :: "Values \<Rightarrow> string list \<Rightarrow> string \<Rightarrow> string" where
  "Encode_keys v [] buf = buf"
| "Encode_keys v (k # keys) buf = Encode_keys v keys (Encode_values (QueryEscape k) (lookup v k) buf)"

definition Values_Encode :: "Values \<Rightarrow> string" where
  "Values_Encode v = (if length v = 0 then [] else Encode_keys v (sort (map fst v)) [])"

text \<open>\<open>strings.Cut\<close> at a one-byte separator; its callers here drop the \<open>found\<close> flag.\<close>

fun Cut :: "char \<Rightarrow> string \<Rightarrow> string \<times> string" where
  "Cut sep [] = ([], [])"
| "Cut sep (c # s) =
     (if c = sep then ([], s) else (case Cut sep s of (before, after) \<Rightarrow> (c # before, after)))"

lemma length_after_Cut: "Cut sep s = (before, after) \<Longrightarrow> length after \<le> length s"
  by (induction s arbitrary: before after) (auto split: if_splits prod.splits)

text \<open>\<open>url.ParseQuery\<close> (Go 1.17 and later). The loop drops a segment that holds a semicolon
  or does not unescape; the error it also reports is ignored by every caller in this
  client.\<close>

function parseQuery :: "Values \<Rightarrow> string \<Rightarrow> Values" where
  "parseQuery m [] = m"
| "parseQuery m (c # cs) =
     (let (key, query) = Cut CHR ''&'' (c # cs) in
      if CHR '';'' \<in> set key then parseQuery m query
      else if key = [] then parseQuery m query
      else
        (let (key, val) = Cut CHR ''='' key in
         case QueryUnescape key of
           None \<Rightarrow> parseQuery m query
         | Some key \<Rightarrow>
             (case QueryUnescape val of
                None \<Rightarrow> parseQuery m query
              | Some val \<Rightarrow> parseQuery (store m key (lookup m key @ [val])) query)))"
  by pat_completeness auto
termination
  by (relation "measure (\<lambda>(m, q). length q)")
     (auto simp: less_Suc_eq_le split: if_splits prod.splits dest: length_after_Cut)

declare parseQuery.simps [simp del]

definition ParseQuery :: "string \<Rightarrow> Values" where
  "ParseQuery query = parseQuery [] query"

section \<open>Requests\<close>

text \<open>
  \<open>url.URL\<close>, for the URLs this client builds: no opaque part, no user information and
  no fragment. \<open>Host\<close> and \<open>EscapedPath\<close> hold the text that \<open>URL.String\<close> and
  \<open>URL.EscapedPath\<close> print for them.
\<close>

record URL =
  Scheme :: string
  Host :: string
  EscapedPath :: string
  RawQuery :: string

definition URL_String :: "URL \<Rightarrow> string" where
  "URL_String u =
     (let buf = (if Scheme u = [] then [] else Scheme u @ '':'');
          buf = (if Scheme u = [] \<and> Host u = [] then buf
                 else buf @ (if Host u = [] \<and> EscapedPath u = [] then [] else ''//'') @ Host u);
          buf = (if EscapedPath u = [] then buf
                 else if take 1 (EscapedPath u) = ''/'' then buf
                 else if Host u = [] then buf
                 else buf @ ''/'');
          buf = (if length buf = 0 \<and> CHR '':'' \<in> set (fst (Cut CHR ''/'' (EscapedPath u)))
                 then buf @ ''./'' else buf);
          buf = buf @ EscapedPath u
      in if RawQuery u = [] then buf else buf @ ''?'' @ RawQuery u)"

definition URL_Query :: "URL \<Rightarrow> Values" where
  "URL_Query u = ParseQuery (RawQuery u)"

text \<open>
  \<open>http.Request\<close>, with the fields the client and \<open>Request.ParseForm\<close> touch.
  \<open>ContentType\<close> is the media type of the \<open>Content-Type\<close> header; \<open>Body\<close> is \<open>None\<close>
  for a nil body and otherwise the bytes not yet read; \<open>Form\<close> and \<open>PostForm\<close> are
  \<open>None\<close> while nil.
\<close>

record Request =
  Method :: string
  URL :: URL
  ContentType :: string
  Body :: "string option"
  PostForm :: "Values option"
  Form :: "Values option"
  RequestURI :: string

text \<open>\<open>copyValues\<close> of \<open>net/http\<close>: every value of \<open>src\<close> is appended under its key.\<close>

fun copyValues :: "Values \<Rightarrow> Values \<Rightarrow> Values" where
  "copyValues dst [] = dst"
| "copyValues dst ((k, vs) # src) = copyValues (store dst k (lookup dst k @ vs)) src"

text \<open>\<open>parsePostForm\<close>: a body is read, to its end, only under the form media type.\<close>

definition parsePostForm :: "Request \<Rightarrow> Values option \<times> Request" where
  "parsePostForm r =
     (case Body r of
        None \<Rightarrow> (None, r)
      | Some b \<Rightarrow>
          if ContentType r = ''application/x-www-form-urlencoded''
          then (Some (ParseQuery b), r\<lparr>Body := Some []\<rparr>)
          else (None, r))"

definition ParseForm :: "Request \<Rightarrow> Request" where
  "ParseForm r =
     (let r1 =
        (case PostForm r of
           Some pf \<Rightarrow> r
         | None \<Rightarrow>
             (let (vs, r') =
                (if Method r = ''POST'' \<or> Method r = ''PUT'' \<or> Method r = ''PATCH''
                 then parsePostForm r else (None, r))
              in r'\<lparr>PostForm := Some (case vs of None \<Rightarrow> [] | Some v \<Rightarrow> v)\<rparr>))
      in case Form r1 of
           Some f \<Rightarrow> r1
         | None \<Rightarrow>
             (let pf = (case PostForm r1 of None \<Rightarrow> [] | Some v \<Rightarrow> v);
                  newValues = ParseQuery (RawQuery (URL r1))
              in r1\<lparr>Form := Some (if length pf > 0 then copyValues (copyValues [] pf) newValues
                                   else newValues)\<rparr>))"

section \<open>The client\<close>

text \<open>
  An error is its text. Of \<open>http.Response\<close>: the status, the bytes that reading the body
  gives, the error that ends the reading if there is one, and whether the body was closed.
\<close>

datatype error = Error string

record Response =
  StatusCode :: int
  ResBody :: string
  ReadErr :: "error option"
  Closed :: bool

text \<open>
  \<open>HTTPClient\<close> is the transport: what \<open>http.Client.Do\<close> gives for a request, a response
  (or nil) and an error (or nil). \<open>None\<close> is the nil client that \<open>Do\<close> replaces by
  \<open>http.DefaultClient\<close>.
\<close>

type_synonym transport = "Request \<Rightarrow> Response option \<times> error option"

record Client =
  HTTPClient :: "transport option"
  Endpoint :: string
  APIKey :: string
  APISecret :: string

section \<open>Signing a request\<close>

text \<open>
  \<open>hmac.New(sha1.New, key)\<close> is a parameter of the model: \<open>hm key msg\<close> is the digest
  that \<open>Sum(nil)\<close> gives once \<open>msg\<close> has been written to the hash. \<open>Sum(b)\<close> appends
  that digest to \<open>b\<close> and leaves the written data as it is.
\<close>

type_synonym hmac = "string \<Rightarrow> string \<Rightarrow> string"

subsection \<open>\<open>SignRequest\<close> of client.go, lines 223-274 (base64, full URL)\<close>

text \<open>The first \<open>switch\<close> and \<open>data.Set("api_key", c.APIKey)\<close>: the request as
  \<open>ParseForm\<close> leaves it, and the parameter set the signature is computed from.\<close>

definition SignRequest_data :: "Client \<Rightarrow> Request \<Rightarrow> Request \<times> Values" where
  "SignRequest_data c req =
     (let (req, data) =
        (if Method req = ''GET'' \<or> Method req = ''DELETE''
         then (req, URL_Query (URL req))
         else (let req = ParseForm req in (req, case Form req of None \<Rightarrow> [] | Some f \<Rightarrow> f)))
      in (req, Values_Set data ''api_key'' (APIKey c)))"

text \<open>The loop over the sorted keys (lines 248-256).\<close>

fun params_loop :: "Values \<Rightarrow> string list \<Rightarrow> nat \<Rightarrow> string list \<Rightarrow> string \<Rightarrow> string" where
  "params_loop data dataKeys idx [] params = params"
| "params_loop data dataKeys idx (key # rest) params =
     params_loop data dataKeys (idx + 1) rest
       (params @ key @ ''='' @ Values_Get data key @
          (if int idx < int (length dataKeys) - 1 then ''&'' else []))"

definition SignRequest_params :: "Values \<Rightarrow> string" where
  "SignRequest_params data =
     (let dataKeys = sort (map fst data) in params_loop data dataKeys 0 dataKeys [])"

text \<open>The contents of the buffer \<open>sig\<close> when the digest is taken.\<close>

definition SignRequest_sig :: "Client \<Rightarrow> Request \<Rightarrow> string" where
  "SignRequest_sig c req =
     (let (req, data) = SignRequest_data c req
      in Method req @ ''&'' @ QueryEscape (URL_String (URL req)) @ ''&'' @
         QueryEscape (SignRequest_params data))"

text \<open>The digest of that buffer under the secret, and its text (lines 260-264).\<close>

definition SignRequest_signature :: "hmac \<Rightarrow> Client \<Rightarrow> Request \<Rightarrow> string" where
  "SignRequest_signature hm c req =
     (let signature = hm (APISecret c) (SignRequest_sig c req) in EncodeToString signature)"

definition SignRequest :: "hmac \<Rightarrow> Client \<Rightarrow> Request \<Rightarrow> Request \<times> error option" where
  "SignRequest hm c req =
     (let (req1, data) = SignRequest_data c req;
          data = Values_Add data ''api_sig'' (SignRequest_signature hm c req)
      in (if Method req1 = ''GET'' \<or> Method req1 = ''DELETE''
          then req1\<lparr>URL := (URL req1)\<lparr>RawQuery := Values_Encode data\<rparr>\<rparr>
          else req1\<lparr>Form := Some data\<rparr>,
          None))"

subsection \<open>\<open>SignRequest\<close> of client.go, lines 54-88 (hexadecimal, path only)\<close>

fun params_loop_hex :: "Values \<Rightarrow> string list \<Rightarrow> nat \<Rightarrow> string list \<Rightarrow> string \<Rightarrow> string" where
  "params_loop_hex query queryKeys idx [] params = params"
| "params_loop_hex query queryKeys idx (key # rest) params =
     params_loop_hex query queryKeys (idx + 1) rest
       (params @ QueryEscape key @ ''='' @ QueryEscape (Values_Get query key) @
          (if idx < length queryKeys then ''&'' else []))"

definition SignRequest_hex_params :: "Values \<Rightarrow> string" where
  "SignRequest_hex_params query =
     (let queryKeys = sort (map fst query) in params_loop_hex query queryKeys 0 queryKeys [])"

definition SignRequest_hex_sig :: "Request \<Rightarrow> string" where
  "SignRequest_hex_sig req =
     Method req @ ''&'' @ EscapedPath (URL req) @ ''&'' @
     QueryEscape (SignRequest_hex_params (URL_Query (URL req)))"

text \<open>Nothing is written to the hash \<open>h\<close> before \<open>h.Sum(sig.Bytes())\<close> (lines 81-82), so
  \<open>signature\<close> is the buffer followed by the digest of the empty message.\<close>

definition SignRequest_hex_signature :: "hmac \<Rightarrow> Client \<Rightarrow> Request \<Rightarrow> string" where
  "SignRequest_hex_signature hm c req =
     (let signature = SignRequest_hex_sig req @ hm (APISecret c) [] in Sprintf_x signature)"

definition SignRequest_hex :: "hmac \<Rightarrow> Client \<Rightarrow> Request \<Rightarrow> Request \<times> error option" where
  "SignRequest_hex hm c req =
     (let query = URL_Query (URL req);
          query = Values_Set query ''api_sig'' (SignRequest_hex_signature hm c req)
      in (req\<lparr>URL := (URL req)\<lparr>RawQuery := Values_Encode query\<rparr>\<rparr>, None))"

section \<open>Sending a request: \<open>Do\<close> of client.go, lines 173-220\<close>

text \<open>
  The argument \<open>v\<close> of \<open>Do\<close> is nil, an \<open>io.Writer\<close>, or another value; for the last,
  \<open>DecodeSink dec\<close> carries what \<open>json.NewDecoder(res.Body).Decode(v)\<close> does with a
  response: the error it returns (\<open>io.EOF\<close> on an empty body) or the value it stores.
  The context is its \<open>Err()\<close> once \<open>Done()\<close> is closed and \<open>None\<close> before.
  A nil pointer dereference is the result \<open>Panic\<close>. What \<open>Do\<close> returns comes with what it
  did: the bytes copied to a writer, the value stored in the target, and whether the
  deferred \<open>res.Body.Close()\<close> ran. The one-time setup also gives an empty \<open>Endpoint\<close> its
  default, which \<open>Do\<close> does not read.
\<close>

datatype 'a sink = NoSink | WriterSink | DecodeSink "Response \<Rightarrow> error + 'a"

datatype 'a result = Panic | Return 'a

record 'a outcome =
  ret_res :: "Response option"
  ret_err :: "error option"
  written :: "string option"
  stored :: "'a option"
  released :: bool

definition io_EOF :: error where
  "io_EOF = Error ''EOF''"

definition Do :: "transport \<Rightarrow> Client \<Rightarrow> error option \<Rightarrow> Request \<Rightarrow> 'a sink \<Rightarrow> 'a outcome result" where
  "Do DefaultClient c ctx req v =
     (let client = (case HTTPClient c of None \<Rightarrow> DefaultClient | Some t \<Rightarrow> t);
          req = req\<lparr>RequestURI := []\<rparr>;
          (res, err) = client req
      in case (err, ctx) of
           (Some e, Some ctxErr) \<Rightarrow>
             Return \<lparr>ret_res = None, ret_err = Some ctxErr, written = None, stored = None,
                     released = False\<rparr>
         | _ \<Rightarrow>
             (case res of
                None \<Rightarrow> Panic
              | Some res \<Rightarrow>
                  if StatusCode res > 299 then
                    (case ReadErr res of
                       Some e \<Rightarrow>
                         Return \<lparr>ret_res = None, ret_err = Some e, written = None, stored = None,
                                 released = True\<rparr>
                     | None \<Rightarrow>
                         Return \<lparr>ret_res = None,
                                 ret_err = Some (Error (''code: '' @ Sprintf_d (StatusCode res) @ '', message: '')),
                                 written = None, stored = None, released = True\<rparr>)
                  else
                    (case v of
                       NoSink \<Rightarrow>
                         Return \<lparr>ret_res = Some (res\<lparr>Closed := True\<rparr>), ret_err = None,
                                 written = None, stored = None, released = True\<rparr>
                     | WriterSink \<Rightarrow>
                         Return \<lparr>ret_res = Some (res\<lparr>Closed := True\<rparr>), ret_err = None,
                                 written = Some (ResBody res), stored = None, released = True\<rparr>
                     | DecodeSink dec \<Rightarrow>
                         (case dec res of
                            Inl decErr \<Rightarrow>
                              if decErr = io_EOF
                              then Return \<lparr>ret_res = Some (res\<lparr>Closed := True\<rparr>), ret_err = None,
                                           written = None, stored = None, released = True\<rparr>
                              else Return \<lparr>ret_res = None, ret_err = Some decErr, written = None,
                                           stored = None, released = True\<rparr>
                          | Inr x \<Rightarrow>
                              Return \<lparr>ret_res = Some (res\<lparr>Closed := True\<rparr>), ret_err = None,
                                      written = None, stored = Some x, released = True\<rparr>))))"

section \<open>The resource operations of client.go, lines 276-357\<close>

text \<open>
  What the operations take from Go's library: the keyed hash, \<open>http.NewRequest\<close> (method
  and URL text to a request or an error), \<open>http.DefaultClient\<close>, the JSON decoder for the
  type of the target, and the zero value of that type. A returned \<open>None\<close> is a nil slice
  or a nil pointer.
\<close>

record 'a Lib =
  hmac_sha1 :: hmac
  http_NewRequest :: "string \<Rightarrow> string \<Rightarrow> error + Request"
  http_DefaultClient :: transport
  json_Decode :: "Response \<Rightarrow> error + 'a"
  zero :: 'a

definition Errorf_w :: "string \<Rightarrow> error \<Rightarrow> error" where
  "Errorf_w prefix err = (case err of Error msg \<Rightarrow> Error (prefix @ msg))"

definition Infographics :: "'a Lib \<Rightarrow> Client \<Rightarrow> ('a option \<times> error option) result" where
  "Infographics lib c =
     (case http_NewRequest lib ''GET'' (Endpoint c @ ''/'' @ ''infographics'') of
        Inl err \<Rightarrow> Return (None, Some (Errorf_w ''new infographics request: '' err))
      | Inr req \<Rightarrow>
          (case SignRequest (hmac_sha1 lib) c req of
             (req, Some err) \<Rightarrow> Return (None, Some err)
           | (req, None) \<Rightarrow>
               (case Do (http_DefaultClient lib) c None req (DecodeSink (json_Decode lib)) of
                  Panic \<Rightarrow> Panic
                | Return out \<Rightarrow>
                    (case ret_err out of
                       Some err \<Rightarrow> Return (None, Some err)
                     | None \<Rightarrow> Return (stored out, None)))))"

definition Infographic :: "'a Lib \<Rightarrow> Client \<Rightarrow> string \<Rightarrow> ('a option \<times> error option) result" where
  "Infographic lib c ident =
     (case http_NewRequest lib ''GET'' (Endpoint c @ ''/'' @ ''infographics'' @ ''/'' @ ident) of
        Inl err \<Rightarrow> Return (None, Some (Errorf_w ''new infographic request: '' err))
      | Inr req \<Rightarrow>
          (case SignRequest (hmac_sha1 lib) c req of
             (req, Some err) \<Rightarrow> Return (None, Some err)
           | (req, None) \<Rightarrow>
               (case Do (http_DefaultClient lib) c None req (DecodeSink (json_Decode lib)) of
                  Panic \<Rightarrow> Panic
                | Return out \<Rightarrow>
                    (case ret_err out of
                       Some err \<Rightarrow> Return (None, None)
                     | None \<Rightarrow>
                         Return (Some (case stored out of None \<Rightarrow> zero lib | Some x \<Rightarrow> x), None)))))"

definition UserInfographics :: "'a Lib \<Rightarrow> Client \<Rightarrow> string \<Rightarrow> ('a option \<times> error option) result" where
  "UserInfographics lib c ident =
     (case http_NewRequest lib ''GET''
             (Endpoint c @ ''/'' @ ''users'' @ ''/'' @ ident @ ''/'' @ ''infographics'') of
        Inl err \<Rightarrow> Return (None, Some (Errorf_w ''new user infographics request: '' err))
      | Inr req \<Rightarrow>
          (case SignRequest (hmac_sha1 lib) c req of
             (req, Some err) \<Rightarrow> Return (None, Some err)
           | (req, None) \<Rightarrow>
               (case Do (http_DefaultClient lib) c None req (DecodeSink (json_Decode lib)) of
                  Panic \<Rightarrow> Panic
                | Return out \<Rightarrow>
                    (case ret_err out of
                       Some err \<Rightarrow> Return (None, None)
                     | None \<Rightarrow> Return (stored out, None)))))"

definition Themes :: "'a Lib \<Rightarrow> Client \<Rightarrow> ('a option \<times> error option) result" where
  "Themes lib c =
     (case http_NewRequest lib ''GET'' (Endpoint c @ ''/'' @ ''themes'') of
        Inl err \<Rightarrow> Return (None, Some (Errorf_w ''new themes request: '' err))
      | Inr req \<Rightarrow>
          (case SignRequest (hmac_sha1 lib) c req of
             (req, Some err) \<Rightarrow> Return (None, Some err)
           | (req, None) \<Rightarrow>
               (case Do (http_DefaultClient lib) c None req (DecodeSink (json_Decode lib)) of
                  Panic \<Rightarrow> Panic
                | Return out \<Rightarrow>
                    (case ret_err out of
                       Some err \<Rightarrow> Return (None, Some err)
                     | None \<Rightarrow> Return (stored out, None)))))"

section \<open>The operations of client.go, lines 90-120 (hexadecimal signing)\<close>

definition signAndDo :: "hmac \<Rightarrow> transport \<Rightarrow> Client \<Rightarrow> Request \<Rightarrow> Response option \<times> error option" where
  "signAndDo hm DefaultClient c req =
     (case SignRequest_hex hm c req of
        (req, Some err) \<Rightarrow> (None, Some err)
      | (req, None) \<Rightarrow>
          (case (case HTTPClient c of None \<Rightarrow> DefaultClient | Some t \<Rightarrow> t) req of
             (res, Some err) \<Rightarrow> (None, Some err)
           | (res, None) \<Rightarrow> (res, None)))"

definition Infographics_hex :: "'a Lib \<Rightarrow> Client \<Rightarrow> ('a option \<times> error option) result" where
  "Infographics_hex lib c =
     (case http_NewRequest lib ''GET''
             (Endpoint c @ ''/'' @ ''infographics'' @ ''?api_key='' @ APIKey c) of
        Inl err \<Rightarrow> Return (None, Some (Errorf_w ''new infographics request: '' err))
      | Inr req \<Rightarrow>
          (case signAndDo (hmac_sha1 lib) (http_DefaultClient lib) c req of
             (res, Some err) \<Rightarrow> Return (None, None)
           | (None, None) \<Rightarrow> Panic
           | (Some res, None) \<Rightarrow>
               (case json_Decode lib res of
                  Inl err \<Rightarrow> Return (None, Some err)
                | Inr x \<Rightarrow> Return (Some x, None))))"

section \<open>The resource records of types.go, lines 11-157\<close>

text \<open>
  The bytes of a JSON text are modelled by the document they spell. \<open>iface\<close> is a Go
  \<open>interface{}\<close> holding one of the dynamic types that occur here; numbers are the
  integers, the only ones this client writes. \<open>json.Unmarshal\<close> stores every JSON
  number in an \<open>interface{}\<close> as a \<open>float64\<close>.
\<close>

datatype json =
  JNumber int | JString string | JBool bool | JNull | JArray "json list"
  | JObject "(string \<times> json) list"

datatype iface =
  GoInt int | GoFloat64 int | GoString string | GoBool bool | GoNil | GoSlice "iface list"
  | GoMap "(string \<times> iface) list"

fun encode_iface :: "iface \<Rightarrow> json" where
  "encode_iface (GoInt n) = JNumber n"
| "encode_iface (GoFloat64 n) = JNumber n"
| "encode_iface (GoString s) = JString s"
| "encode_iface (GoBool b) = JBool b"
| "encode_iface GoNil = JNull"
| "encode_iface (GoSlice xs) = JArray (map encode_iface xs)"
| "encode_iface (GoMap kvs) = JObject (sort_key fst (map (map_prod id encode_iface) kvs))"

fun decode_json :: "json \<Rightarrow> iface" where
  "decode_json (JNumber n) = GoFloat64 n"
| "decode_json (JString s) = GoString s"
| "decode_json (JBool b) = GoBool b"
| "decode_json JNull = GoNil"
| "decode_json (JArray xs) = GoSlice (map decode_json xs)"
| "decode_json (JObject kvs) =
     GoMap (foldl (\<lambda>m (k, v). store m k v) [] (map (map_prod id decode_json) kvs))"

text \<open>\<open>json.Marshal\<close> of a \<open>map[string]interface{}\<close>, and \<open>json.Unmarshal\<close> into one.\<close>

definition json_Marshal :: "(string \<times> iface) list \<Rightarrow> error + json" where
  "json_Marshal data = Inr (encode_iface (GoMap data))"

definition json_Unmarshal :: "json \<Rightarrow> (string \<times> iface) list \<Rightarrow> error + (string \<times> iface) list" where
  "json_Unmarshal bytes data =
     (case bytes of
        JObject kvs \<Rightarrow> Inr (foldl (\<lambda>m (k, v). store m k v) data (map (map_prod id decode_json) kvs))
      | JNull \<Rightarrow> Inr data
      | _ \<Rightarrow> Inl (Error ''json: cannot unmarshal into Go value of type map[string]interface {}''))"

text \<open>\<open>time.Time\<close> is a number of seconds; \<open>url.Parse\<close> and \<open>time.Parse\<close> with the layout
  RFC 3339 are parameters, \<open>None\<close> being their error. A nil \<open>*url.URL\<close> is \<open>None\<close>.\<close>

type_synonym Time = int

record Infoghaphic =
  Id :: int
  Title :: string
  Thumbnail :: "URL option"
  ThemeId :: int
  Published :: bool
  Modified :: Time
  URL' :: "URL option"

definition Infoghaphic_MarshalJSON :: "Infoghaphic \<Rightarrow> (error + json) result" where
  "Infoghaphic_MarshalJSON i =
     (let data = [];
          data = store data ''id'' (GoInt (Id i));
          data = store data ''title'' (GoString (Title i))
      in case Thumbnail i of
           None \<Rightarrow> Panic
         | Some thumbnail \<Rightarrow>
             (let data = store data ''thumbnail_url'' (GoString (URL_String thumbnail));
                  data = store data ''theme_id'' (GoInt (ThemeId i));
                  data = store data ''published'' (GoBool (Published i))
              in case URL' i of
                   None \<Rightarrow> Panic
                 | Some u \<Rightarrow>
                     (let data = store data ''url'' (GoString (URL_String u))
                      in case json_Marshal data of
                           Inl err \<Rightarrow> Return (Inl (Errorf_w ''marshalling infographic: '' err))
                         | Inr bytes \<Rightarrow> Return (Inr bytes))))"

text \<open>\<open>if val, found := data[key]; found { ... }\<close>, skipped once an error was returned.
  The target keeps the fields assigned before the error.\<close>

definition found :: "(string \<times> iface) list \<Rightarrow> string \<Rightarrow> (iface \<Rightarrow> 'r \<Rightarrow> 'r \<times> error option) \<Rightarrow>
    'r \<times> error option \<Rightarrow> 'r \<times> error option" where
  "found data key f st =
     (case st of
        (r, Some err) \<Rightarrow> (r, Some err)
      | (r, None) \<Rightarrow> (case map_of data key of None \<Rightarrow> (r, None) | Some val \<Rightarrow> f val r))"

definition Infoghaphic_UnmarshalJSON ::
    "(string \<Rightarrow> URL option) \<Rightarrow> (string \<Rightarrow> Time option) \<Rightarrow> json \<Rightarrow> Infoghaphic \<Rightarrow> Infoghaphic \<times> error option" where
  "Infoghaphic_UnmarshalJSON url_Parse time_Parse bytes i =
     (case json_Unmarshal bytes [] of
        Inl err \<Rightarrow> (i, Some (Errorf_w ''unmarshalling infographic: '' err))
      | Inr data \<Rightarrow>
          (let st = (i, None);
               st = found data ''id'' (\<lambda>val i. case val of
                      GoInt v \<Rightarrow> (i\<lparr>Id := v\<rparr>, None)
                    | _ \<Rightarrow> (i, Some (Error ''id needs to be an int''))) st;
               st = found data ''title'' (\<lambda>val i. case val of
                      GoString v \<Rightarrow> (i\<lparr>Title := v\<rparr>, None)
                    | _ \<Rightarrow> (i, Some (Error ''title needs to be an string''))) st;
               st = found data ''thumbnail_url'' (\<lambda>val i. case val of
                      GoString v \<Rightarrow>
                        (case url_Parse v of
                           None \<Rightarrow> (i\<lparr>Thumbnail := None\<rparr>, Some (Error ''thumbnail_url needs to be a parsable URL''))
                         | Some u \<Rightarrow> (i\<lparr>Thumbnail := Some u\<rparr>, None))
                    | _ \<Rightarrow> (i, Some (Error ''thumbnail_url needs to be an string''))) st;
               st = found data ''theme_id'' (\<lambda>val i. case val of
                      GoInt v \<Rightarrow> (i\<lparr>ThemeId := v\<rparr>, None)
                    | _ \<Rightarrow> (i, Some (Error ''theme_id needs to be an int''))) st;
               st = found data ''published'' (\<lambda>val i. case val of
                      GoBool v \<Rightarrow> (i\<lparr>Published := v\<rparr>, None)
                    | _ \<Rightarrow> (i, Some (Error ''published needs to be an boolean''))) st;
               st = found data ''date_modified'' (\<lambda>val i. case val of
                      GoString v \<Rightarrow>
                        (case time_Parse v of
                           None \<Rightarrow> (i\<lparr>Modified := 0\<rparr>, Some (Error ''date_modified needs to be a parsable RFC 3339 time''))
                         | Some t \<Rightarrow> (i\<lparr>Modified := t\<rparr>, None))
                    | _ \<Rightarrow> (i, Some (Error ''date_modified needs to be an string''))) st;
               st = found data ''url'' (\<lambda>val i. case val of
                      GoString v \<Rightarrow>
                        (case url_Parse v of
                           None \<Rightarrow> (i\<lparr>URL' := None\<rparr>, Some (Error ''url needs to be a parsable URL''))
                         | Some u \<Rightarrow> (i\<lparr>URL' := Some u\<rparr>, None))
                    | _ \<Rightarrow> (i, Some (Error ''url needs to be an string''))) st
           in st))"

record Theme =
  Theme_Id :: int
  Theme_Title :: string
  Theme_Thumbnail :: "URL option"

definition Theme_MarshalJSON :: "Theme \<Rightarrow> (error + json) result" where
  "Theme_MarshalJSON t =
     (let data = [];
          data = store data ''id'' (GoInt (Theme_Id t));
          data = store data ''title'' (GoString (Theme_Title t))
      in case Theme_Thumbnail t of
           None \<Rightarrow> Panic
         | Some thumbnail \<Rightarrow>
             (let data = store data ''thumbnail_url'' (GoString (URL_String thumbnail))
              in Return (json_Marshal data)))"

text \<open>Lines 127-157: \<open>data\<close> is made and then read; \<open>bytes\<close> is never decoded into it.\<close>

definition Theme_UnmarshalJSON :: "(string \<Rightarrow> URL option) \<Rightarrow> json \<Rightarrow> Theme \<Rightarrow> Theme \<times> error option" where
  "Theme_UnmarshalJSON url_Parse bytes t =
     (let data = [];
          st = (t, None);
          st = found data ''id'' (\<lambda>val t. case val of
                 GoInt v \<Rightarrow> (t\<lparr>Theme_Id := v\<rparr>, None)
               | _ \<Rightarrow> (t, Some (Error ''id needs to be an int''))) st;
          st = found data ''title'' (\<lambda>val t. case val of
                 GoString v \<Rightarrow> (t\<lparr>Theme_Title := v\<rparr>, None)
               | _ \<Rightarrow> (t, Some (Error ''title needs to be an string''))) st;
          st = found data ''thumbnail_url'' (\<lambda>val t. case val of
                 GoString v \<Rightarrow>
                   (case url_Parse v of
                      None \<Rightarrow> (t\<lparr>Theme_Thumbnail := None\<rparr>, Some (Error ''thumbnail_url needs to be a parsable URL''))
                    | Some u \<Rightarrow> (t\<lparr>Theme_Thumbnail := Some u\<rparr>, None))
               | _ \<Rightarrow> (t, Some (Error ''thumbnail_url needs to be an string''))) st
      in st)"

section \<open>Requests and clients of the tests\<close>

text \<open>The client of client_test.go, line 71, and the request its test signs, with the
  \<open>api_key\<close> parameter already in the URL, where the callers of lines 104 and 123 put it.\<close>

definition test_client :: Client where
  "test_client = \<lparr>HTTPClient = None, Endpoint = ''https://infogr.am/service/v1'',
     APIKey = ''test-key'', APISecret = ''shh''\<rparr>"

definition test_request :: Request where
  "test_request = \<lparr>Method = ''GET'',
     URL = \<lparr>Scheme = ''https'', Host = ''infogr.am'', EscapedPath = ''/service/v1/infographics'',
            RawQuery = ''api_key=test-key&id=1&label=new+label''\<rparr>,
     ContentType = [], Body = None, PostForm = None, Form = None, RequestURI = []\<rparr>"

text \<open>A server that answers every request with status 404 and the body \<open>not found\<close>, and
  a library whose \<open>http.NewRequest\<close> gives the request for one infographic.\<close>

definition not_found :: transport where
  "not_found = (\<lambda>req. (Some \<lparr>StatusCode = 404, ResBody = ''not found'', ReadErr = None,
                               Closed = False\<rparr>, None))"

definition not_found_lib :: "unit Lib" where
  "not_found_lib = \<lparr>hmac_sha1 = (\<lambda>key msg. []),
     http_NewRequest = (\<lambda>method url. Inr \<lparr>Method = method,
        URL = \<lparr>Scheme = ''https'', Host = ''infogr.am'',
               EscapedPath = ''/service/v1/infographics/1'', RawQuery = []\<rparr>,
        ContentType = [], Body = None, PostForm = None, Form = None, RequestURI = []\<rparr>),
     http_DefaultClient = not_found,
     json_Decode = (\<lambda>res. Inl io_EOF), zero = ()\<rparr>"



text \<open>Two GET requests whose query strings list the same two parameters in the two
  orders.\<close>

definition get_id_first :: Request where
  "get_id_first = \<lparr>Method = ''GET'',
     URL = \<lparr>Scheme = ''https'', Host = ''infogr.am'', EscapedPath = ''/service/v1/infographics'',
            RawQuery = ''id=1&format=png''\<rparr>,
     ContentType = [], Body = None, PostForm = None, Form = None, RequestURI = []\<rparr>"

definition get_format_first :: Request where
  "get_format_first = \<lparr>Method = ''GET'',
     URL = \<lparr>Scheme = ''https'', Host = ''infogr.am'', EscapedPath = ''/service/v1/infographics'',
            RawQuery = ''format=png&id=1''\<rparr>,
     ContentType = [], Body = None, PostForm = None, Form = None, RequestURI = []\<rparr>"





text \<open>The records of types_test.go, and the zero values they are decoded into.\<close>

definition test_theme :: Theme where
  "test_theme = \<lparr>Theme_Id = 100, Theme_Title = ''One Hundred'',
     Theme_Thumbnail = Some \<lparr>Scheme = ''https'', Host = ''example.com'',
       EscapedPath = ''/thumbnail.png'', RawQuery = []\<rparr>\<rparr>"

definition zero_theme :: Theme where
  "zero_theme = \<lparr>Theme_Id = 0, Theme_Title = [], Theme_Thumbnail = None\<rparr>"

definition test_infographic :: Infoghaphic where
  "test_infographic = \<lparr>Id = 100, Title = ''One Hundred'',
     Thumbnail = Some \<lparr>Scheme = ''https'', Host = ''example.com'',
       EscapedPath = ''/thumbnail.png'', RawQuery = []\<rparr>,
     ThemeId = 200, Published = False, Modified = 0,
     URL' = Some \<lparr>Scheme = ''https'', Host = ''example.com'', EscapedPath = ''/100'',
       RawQuery = []\<rparr>\<rparr>"

definition zero_infographic :: Infoghaphic where
  "zero_infographic = \<lparr>Id = 0, Title = [], Thumbnail = None, ThemeId = 0, Published = False,
     Modified = 0, URL' = None\<rparr>"

section \<open>The parameter string, as the specification words it\<close>







section \<open>Lemmas on the library functions\<close>


lemma keys_store: "set (map fst (store v k x)) = insert k (set (map fst v))"
  by (induction v k x rule: store.induct) auto

lemma distinct_store: "distinct (map fst v) \<Longrightarrow> distinct (map fst (store v k x))"
  by (induction v k x rule: store.induct) (auto simp: keys_store simp flip: set_map)

lemma lookup_cong: "map_of v = map_of w \<Longrightarrow> lookup v key = lookup w key"
  by (simp add: lookup_def)

lemma Values_Get_cong: "map_of v = map_of w \<Longrightarrow> Values_Get v key = Values_Get w key"
  by (simp add: Values_Get_def lookup_def)

lemma Sprintf_x_append: "Sprintf_x (a @ b) = Sprintf_x a @ Sprintf_x b"
  by (simp add: Sprintf_x_def)

lemma QueryEscape_append: "QueryEscape (a @ b) = QueryEscape a @ QueryEscape b"
  by (simp add: QueryEscape_def)

lemma escape_lowerhex: "\<forall>k \<in> set [0..<16]. escape_byte (lowerhex ! k) = [lowerhex ! k]"
  by code_simp

lemma QueryEscape_hex_byte: "QueryEscape (hex_byte c) = hex_byte c"
proof -
  have "(of_char c :: nat) < 256"
    by (metis of_char_mod_256 mod_less_divisor zero_less_numeral)
  then have "(of_char c :: nat) div 16 < 16" "(of_char c :: nat) mod 16 < 16"
    by (simp_all add: div_less_iff_less_mult)
  then show ?thesis
    using escape_lowerhex by (simp add: QueryEscape_def hex_byte_def)
qed

lemma QueryEscape_Sprintf_x: "QueryEscape (Sprintf_x b) = Sprintf_x b"
  by (induction b)
     (simp_all add: Sprintf_x_def QueryEscape_hex_byte QueryEscape_append QueryEscape_def [of "[]"])

lemma Sprintf_d_404: "Sprintf_d 404 = ''404''"
  by (simp add: Sprintf_d_def digits.simps)

section \<open>Signing: the hexadecimal variant at the request of its test\<close>

lemma test_request_query:
  "URL_Query (URL test_request) =
   [(''api_key'', [''test-key'']), (''id'', [''1'']), (''label'', [''new label''])]"
  by code_simp

lemma test_request_sig_x:
  "Sprintf_x (SignRequest_hex_sig test_request) =
   ''474554262f736572766963652f76312f696e666f6772617068696373266170695f6b6579253344746573742d6b65792532366964253344312532366c6162656c2533446e65772532426c6162656c253236''"
  by code_simp

lemma hex_keys_sorted:
  "sort [''api_key'', ''id'', ''label'', ''api_sig''] = [''api_key'', ''api_sig'', ''id'', ''label'']"
  by code_simp

lemma hex_escapes:
  "QueryEscape ''api_key'' = ''api_key''" "QueryEscape ''api_sig'' = ''api_sig''"
  "QueryEscape ''id'' = ''id''" "QueryEscape ''label'' = ''label''"
  "QueryEscape ''test-key'' = ''test-key''" "QueryEscape ''1'' = ''1''"
  "QueryEscape ''new label'' = ''new+label''"
  by code_simp+

text \<open>In every run of the hexadecimal variant the text under \<open>api_sig\<close> is the signed
  string in hexadecimal, followed by the digest of the empty message.\<close>

lemma SignRequest_hex_signature_text:
  "SignRequest_hex_signature hm c req =
   Sprintf_x (SignRequest_hex_sig req) @ Sprintf_x (hm (APISecret c) [])"
  by (simp add: SignRequest_hex_signature_def Sprintf_x_append)

text \<open>
  C1 (the signature is the HMAC-SHA1 digest of the canonical string). In the variant of
  lines 54-88 it is not: at the request of the test, whatever the keyed hash \<open>hm\<close> is,
  the value written under \<open>api_sig\<close> is the canonical string \<open>GET&/service/v1/...\<close> itself in
  hexadecimal, followed by the digest of the empty message under the secret. This is the
  value the test at client_test.go, line 88, records: the same 166 digits followed by 40
  more.
\<close>

theorem SignRequest_hex_signs_empty_message:
  "RawQuery (URL (fst (SignRequest_hex hm test_client test_request))) =
   ''api_key=test-key&api_sig=474554262f736572766963652f76312f696e666f6772617068696373266170695f6b6579253344746573742d6b65792532366964253344312532366c6162656c2533446e65772532426c6162656c253236''
     @ Sprintf_x (hm ''shh'' []) @ ''&id=1&label=new+label''"
proof -
  have "RawQuery (URL (fst (SignRequest_hex hm test_client test_request))) =
    Values_Encode [(''api_key'', [''test-key'']), (''id'', [''1'']), (''label'', [''new label'']),
      (''api_sig'', [Sprintf_x (SignRequest_hex_sig test_request) @ Sprintf_x (hm ''shh'' [])])]"
    by (simp add: SignRequest_hex_def SignRequest_hex_signature_def Let_def test_request_query
          Values_Set_def Sprintf_x_append)
       (simp add: test_client_def)
  also have "\<dots> = ''api_key=test-key&api_sig='' @ Sprintf_x (SignRequest_hex_sig test_request) @
      Sprintf_x (hm ''shh'' []) @ ''&id=1&label=new+label''"
    by (simp add: Values_Encode_def hex_keys_sorted lookup_def hex_escapes QueryEscape_append
          QueryEscape_Sprintf_x)
  finally show ?thesis
    by (simp add: test_request_sig_x)
qed

section \<open>Sending and the resource operations\<close>

lemma snd_SignRequest: "snd (SignRequest hm c req) = None"
  by (simp add: SignRequest_def Let_def split: prod.splits)

lemma snd_SignRequest_hex: "snd (SignRequest_hex hm c req) = None"
  by (simp add: SignRequest_hex_def Let_def)

text \<open>\<open>Do\<close> on a response of the transport: the failure path drops the body, the success
  path returns the response and copies its body to a writer, and the body is closed on
  every path that returns.\<close>

lemma Do_error_text_ignores_body:
  assumes "HTTPClient c = Some t" and "t (req\<lparr>RequestURI := []\<rparr>) = (Some res, None)"
    and "StatusCode res > 299" and "ReadErr res = None"
  shows "Do dflt c ctx req v =
         Return \<lparr>ret_res = None,
                 ret_err = Some (Error (''code: '' @ Sprintf_d (StatusCode res) @ '', message: '')),
                 written = None, stored = None, released = True\<rparr>"
  using assms by (simp add: Do_def split: option.splits)

lemma Do_success_path:
  assumes "HTTPClient c = Some t" and "t (req\<lparr>RequestURI := []\<rparr>) = (Some res, None)"
    and "StatusCode res \<le> 299"
  shows "Do dflt c ctx req NoSink =
           Return \<lparr>ret_res = Some (res\<lparr>Closed := True\<rparr>), ret_err = None, written = None,
                   stored = None, released = True\<rparr>"
    and "Do dflt c ctx req WriterSink =
           Return \<lparr>ret_res = Some (res\<lparr>Closed := True\<rparr>), ret_err = None,
                   written = Some (ResBody res), stored = None, released = True\<rparr>"
  using assms by (simp_all add: Do_def split: option.splits)

lemma Do_releases_body:
  assumes "HTTPClient c = Some t" and "t (req\<lparr>RequestURI := []\<rparr>) = (Some res, None)"
    and "Do dflt c ctx req v = Return out"
  shows "released out"
  using assms by (auto simp: Do_def split: option.splits if_splits sink.splits sum.splits)

text \<open>
  C2 (a status outside 200-299 gives an error whose text is the response body). \<open>Do\<close> of
  lines 173-220 reads the body and drops it: for the status 404 and the body
  \<open>not found\<close> the error text is \<open>code: 404, message: \<close>, for every request, target and
  context.
\<close>

theorem Do_status_404_error_text:
  "Do dflt \<lparr>HTTPClient = Some not_found, Endpoint = e, APIKey = k, APISecret = s\<rparr> ctx req v =
   Return \<lparr>ret_res = None, ret_err = Some (Error ''code: 404, message: ''), written = None,
           stored = None, released = True\<rparr>"
  by (simp add: Do_def not_found_def Sprintf_d_404 split: option.splits)

text \<open>
  C4 (no resource operation suppresses an error). \<open>Infographic\<close> of lines 298-316 does:
  whenever its request is built and \<open>Do\<close> returns an error, it returns a nil result
  together with a nil error.
\<close>

theorem Infographic_suppresses_Do_error:
  assumes "http_NewRequest lib ''GET'' (Endpoint c @ ''/'' @ ''infographics'' @ ''/'' @ ident) = Inr req"
    and "Do (http_DefaultClient lib) c None (fst (SignRequest (hmac_sha1 lib) c req))
           (DecodeSink (json_Decode lib)) = Return out"
    and "ret_err out = Some err"
  shows "Infographic lib c ident = Return (None, None)"
proof -
  obtain req' where "SignRequest (hmac_sha1 lib) c req = (req', None)"
    using snd_SignRequest [of "hmac_sha1 lib" c req]
    by (cases "SignRequest (hmac_sha1 lib) c req") auto
  with assms show ?thesis
    by (simp add: Infographic_def)
qed

theorem Infographic_suppresses_Do_error_witness:
  "Infographic not_found_lib test_client ''1'' = Return (None, None)"
proof -
  let ?req = "\<lparr>Method = ''GET'',
        URL = \<lparr>Scheme = ''https'', Host = ''infogr.am'',
               EscapedPath = ''/service/v1/infographics/1'', RawQuery = []\<rparr>,
        ContentType = [], Body = None, PostForm = None, Form = None, RequestURI = []\<rparr>"
  let ?out = "\<lparr>ret_res = None, ret_err = Some (Error ''code: 404, message: ''), written = None,
           stored = None :: unit option, released = True\<rparr>"
  have 1: "http_NewRequest not_found_lib ''GET''
             (Endpoint test_client @ ''/'' @ ''infographics'' @ ''/'' @ ''1'') = Inr ?req"
    by (simp add: not_found_lib_def)
  have 2: "Do (http_DefaultClient not_found_lib) test_client None
             (fst (SignRequest (hmac_sha1 not_found_lib) test_client ?req))
             (DecodeSink (json_Decode not_found_lib)) = Return ?out"
    by (simp add: Do_def not_found_lib_def not_found_def test_client_def Sprintf_d_404)
  have 3: "ret_err ?out = Some (Error ''code: 404, message: '')"
    by simp
  show ?thesis
    by (rule Infographic_suppresses_Do_error [OF 1 2 3])
qed

text \<open>\<open>UserInfographics\<close> (lines 319-337) and \<open>Infographics\<close> of the hexadecimal variant
  (lines 103-120) lose the error in the same way; \<open>Infographics\<close> of lines 277-295 returns
  it.\<close>

lemma UserInfographics_suppresses_Do_error:
  assumes "http_NewRequest lib ''GET''
             (Endpoint c @ ''/'' @ ''users'' @ ''/'' @ ident @ ''/'' @ ''infographics'') = Inr req"
    and "Do (http_DefaultClient lib) c None (fst (SignRequest (hmac_sha1 lib) c req))
           (DecodeSink (json_Decode lib)) = Return out"
    and "ret_err out = Some err"
  shows "UserInfographics lib c ident = Return (None, None)"
proof -
  obtain req' where "SignRequest (hmac_sha1 lib) c req = (req', None)"
    using snd_SignRequest [of "hmac_sha1 lib" c req]
    by (cases "SignRequest (hmac_sha1 lib) c req") auto
  with assms show ?thesis
    by (simp add: UserInfographics_def)
qed

lemma Infographics_hex_suppresses_transport_error:
  assumes "http_NewRequest lib ''GET''
             (Endpoint c @ ''/'' @ ''infographics'' @ ''?api_key='' @ APIKey c) = Inr req"
    and "HTTPClient c = Some t"
    and "t (fst (SignRequest_hex (hmac_sha1 lib) c req)) = (res, Some err)"
  shows "Infographics_hex lib c = Return (None, None)"
proof -
  obtain req' where "SignRequest_hex (hmac_sha1 lib) c req = (req', None)"
    using snd_SignRequest_hex [of "hmac_sha1 lib" c req]
    by (cases "SignRequest_hex (hmac_sha1 lib) c req") auto
  with assms show ?thesis
    by (simp add: Infographics_hex_def signAndDo_def)
qed

lemma Infographics_returns_Do_error:
  assumes "http_NewRequest lib ''GET'' (Endpoint c @ ''/'' @ ''infographics'') = Inr req"
    and "Do (http_DefaultClient lib) c None (fst (SignRequest (hmac_sha1 lib) c req))
           (DecodeSink (json_Decode lib)) = Return out"
    and "ret_err out = Some err"
  shows "Infographics lib c = Return (None, Some err)"
proof -
  obtain req' where "SignRequest (hmac_sha1 lib) c req = (req', None)"
    using snd_SignRequest [of "hmac_sha1 lib" c req]
    by (cases "SignRequest (hmac_sha1 lib) c req") auto
  with assms show ?thesis
    by (simp add: Infographics_def)
qed

text \<open>
  C9 (\<open>Do\<close> runs without fault when the transport fails under a live context). It does
  not: the transport's error is looked at only to test the context, and with a context
  that is not done \<open>Do\<close> goes on to \<open>res.Body\<close> of the nil response.
\<close>

theorem Do_panics_on_transport_error:
  "Do dflt \<lparr>HTTPClient = Some (\<lambda>req. (None, Some (Error ''connection refused''))),
             Endpoint = e, APIKey = k, APISecret = s\<rparr> None req v = Panic"
  by (simp add: Do_def)

text \<open>
  C10: \<open>SignRequest\<close> returns a nil error for every request, client and keyed hash, in
  the variant of lines 223-274 and in that of lines 54-88.
\<close>

theorem SignRequest_error_is_nil:
  "snd (SignRequest hm c req) = None \<and> snd (SignRequest_hex hm c req) = None"
  by (simp add: SignRequest_def SignRequest_hex_def Let_def split: prod.splits)

section \<open>Encoding and decoding the resource records\<close>

lemma sort_key_infographic:
  "sort_key fst
     [(''id'', a), (''title'', b), (''thumbnail_url'', c), (''theme_id'', d), (''published'', e),
      (''url'', f)] =
   [(''id'', a), (''published'', e), (''theme_id'', d), (''thumbnail_url'', c), (''title'', b),
    (''url'', f)]"
  by simp

lemma Infoghaphic_MarshalJSON_document:
  "Thumbnail i = Some a \<Longrightarrow> URL' i = Some b \<Longrightarrow>
   Infoghaphic_MarshalJSON i = Return (Inr (JObject
     [(''id'', JNumber (Id i)), (''published'', JBool (Published i)),
      (''theme_id'', JNumber (ThemeId i)), (''thumbnail_url'', JString (URL_String a)),
      (''title'', JString (Title i)), (''url'', JString (URL_String b))]))"
  by (simp add: Infoghaphic_MarshalJSON_def json_Marshal_def sort_key_infographic)

lemma Infoghaphic_decode_of_encode:
  assumes "Infoghaphic_MarshalJSON i = Return (Inr bytes)"
  shows "Infoghaphic_UnmarshalJSON url_Parse time_Parse bytes j =
         (j, Some (Error ''id needs to be an int''))"
proof -
  obtain a b where "Thumbnail i = Some a" "URL' i = Some b"
    using assms by (auto simp: Infoghaphic_MarshalJSON_def Let_def split: option.splits)
  then have "bytes = JObject
     [(''id'', JNumber (Id i)), (''published'', JBool (Published i)),
      (''theme_id'', JNumber (ThemeId i)), (''thumbnail_url'', JString (URL_String a)),
      (''title'', JString (Title i)), (''url'', JString (URL_String b))]"
    using assms Infoghaphic_MarshalJSON_document [of i a b] by simp
  then show ?thesis
    by (simp add: Infoghaphic_UnmarshalJSON_def json_Unmarshal_def found_def Let_def)
qed

lemma test_infographic_document:
  "Infoghaphic_MarshalJSON test_infographic = Return (Inr (JObject
     [(''id'', JNumber 100), (''published'', JBool False), (''theme_id'', JNumber 200),
      (''thumbnail_url'', JString ''https://example.com/thumbnail.png''),
      (''title'', JString ''One Hundred''), (''url'', JString ''https://example.com/100'')]))"
  by code_simp

lemma test_theme_document:
  "Theme_MarshalJSON test_theme = Return (Inr (JObject
     [(''id'', JNumber 100), (''thumbnail_url'', JString ''https://example.com/thumbnail.png''),
      (''title'', JString ''One Hundred'')]))"
  by code_simp

text \<open>
  C3 (decoding an encoded record gives the record back). Neither decoder does. Whatever
  document \<open>Infoghaphic.MarshalJSON\<close> returns, \<open>Infoghaphic.UnmarshalJSON\<close> rejects it with
  \<open>id needs to be an int\<close>, since the decoded number is a \<open>float64\<close> and the type
  assertion of line 47 asks for an \<open>int\<close>; and \<open>Theme.UnmarshalJSON\<close> returns no error and
  leaves its target as it was, for every document.
\<close>

theorem decode_of_encode_is_not_the_record:
  "(Infoghaphic_MarshalJSON i = Return (Inr bytes) \<longrightarrow>
      Infoghaphic_UnmarshalJSON url_Parse time_Parse bytes j =
        (j, Some (Error ''id needs to be an int'')))
   \<and> Theme_UnmarshalJSON url_Parse bytes' t = (t, None)"
  using Infoghaphic_decode_of_encode [of i bytes url_Parse time_Parse j]
  by (simp add: Theme_UnmarshalJSON_def found_def)

theorem decode_of_encode_at_the_test_records:
  "\<forall>url_Parse time_Parse.
     Infoghaphic_MarshalJSON test_infographic = Return (Inr (JObject
       [(''id'', JNumber 100), (''published'', JBool False), (''theme_id'', JNumber 200),
        (''thumbnail_url'', JString ''https://example.com/thumbnail.png''),
        (''title'', JString ''One Hundred''), (''url'', JString ''https://example.com/100'')]))
     \<and> Infoghaphic_UnmarshalJSON url_Parse time_Parse (JObject
       [(''id'', JNumber 100), (''published'', JBool False), (''theme_id'', JNumber 200),
        (''thumbnail_url'', JString ''https://example.com/thumbnail.png''),
        (''title'', JString ''One Hundred''), (''url'', JString ''https://example.com/100'')])
       zero_infographic = (zero_infographic, Some (Error ''id needs to be an int''))
     \<and> Theme_MarshalJSON test_theme = Return (Inr (JObject
       [(''id'', JNumber 100), (''thumbnail_url'', JString ''https://example.com/thumbnail.png''),
        (''title'', JString ''One Hundred'')]))
     \<and> Theme_UnmarshalJSON url_Parse (JObject
       [(''id'', JNumber 100), (''thumbnail_url'', JString ''https://example.com/thumbnail.png''),
        (''title'', JString ''One Hundred'')]) zero_theme = (zero_theme, None)
     \<and> zero_theme \<noteq> test_theme"
proof (intro allI conjI)
  fix url_Parse :: "string \<Rightarrow> URL option" and time_Parse :: "string \<Rightarrow> Time option"
  let ?doc = "JObject
       [(''id'', JNumber 100), (''published'', JBool False), (''theme_id'', JNumber 200),
        (''thumbnail_url'', JString ''https://example.com/thumbnail.png''),
        (''title'', JString ''One Hundred''), (''url'', JString ''https://example.com/100'')]"
  let ?tdoc = "JObject
       [(''id'', JNumber 100), (''thumbnail_url'', JString ''https://example.com/thumbnail.png''),
        (''title'', JString ''One Hundred'')]"
  note main = decode_of_encode_is_not_the_record
    [of test_infographic ?doc url_Parse time_Parse zero_infographic ?tdoc zero_theme]
  show "Infoghaphic_MarshalJSON test_infographic = Return (Inr ?doc)"
    by (rule test_infographic_document)
  then show "Infoghaphic_UnmarshalJSON url_Parse time_Parse ?doc zero_infographic =
      (zero_infographic, Some (Error ''id needs to be an int''))"
    using main by simp
  show "Theme_MarshalJSON test_theme = Return (Inr ?tdoc)"
    by (rule test_theme_document)
  show "Theme_UnmarshalJSON url_Parse ?tdoc zero_theme = (zero_theme, None)"
    using main by simp
  show "zero_theme \<noteq> test_theme"
    by (simp add: zero_theme_def test_theme_def)
qed

section \<open>Signing: the parameter string, its source and its order\<close>




lemma params_loop_hex_pairs:
  "idx + length ks = length queryKeys \<Longrightarrow>
   params_loop_hex query queryKeys idx ks buf =
   buf @ concat (map (\<lambda>key. QueryEscape key @ ''='' @ QueryEscape (Values_Get query key) @ ''&'') ks)"
  by (induction ks arbitrary: idx buf) auto

lemma SignRequest_hex_params_pairs:
  "SignRequest_hex_params query =
   concat (map (\<lambda>key. QueryEscape key @ ''='' @ QueryEscape (Values_Get query key) @ ''&'')
     (sort (map fst query)))"
  by (simp add: SignRequest_hex_params_def Let_def params_loop_hex_pairs)

text \<open>
  C5 (the parameter string is the sorted pairs, each key and value percent-encoded,
  joined by single ampersands with none trailing). At the request of the test, whose
  parameter \<open>label\<close> has the value \<open>new label\<close>, the variant of lines 223-274 writes the
  value as it is, with its space, and the variant of lines 54-88 ends the string with an
  ampersand.
\<close>

theorem parameter_strings_at_test_request:
  "SignRequest_params (snd (SignRequest_data test_client test_request)) =
     ''api_key=test-key&id=1&label=new label''
   \<and> SignRequest_hex_params (URL_Query (URL test_request)) =
     ''api_key=test-key&id=1&label=new+label&''"
  by code_simp

lemma sort_keys_cong:
  assumes "distinct (map fst v)" "distinct (map fst w)" "set v = set w"
  shows "sort (map fst v) = sort (map fst w)"
proof -
  have "set (map fst v) = set (map fst w)"
    using assms(3) by simp
  then show ?thesis
    using assms(1,2) by (metis sorted_list_of_set_sort_remdups distinct_remdups_id)
qed


lemma URL_SignRequest_data: "URL (fst (SignRequest_data c req)) = URL req"
  by (simp add: SignRequest_data_def ParseForm_def parsePostForm_def Let_def
      split: option.splits prod.splits)

lemma Method_SignRequest_data: "Method (fst (SignRequest_data c req)) = Method req"
  by (simp add: SignRequest_data_def ParseForm_def parsePostForm_def Let_def
      split: option.splits prod.splits)

lemma SignRequest_sig_eq:
  "SignRequest_sig c req =
   Method req @ ''&'' @ QueryEscape (URL_String (URL req)) @ ''&'' @
   QueryEscape (SignRequest_params (snd (SignRequest_data c req)))"
  using URL_SignRequest_data [of c req] Method_SignRequest_data [of c req]
  by (simp add: SignRequest_sig_def split_beta)

text \<open>The variant of lines 223-274 signs that string: the text under \<open>api_sig\<close> is the
  base64 text of its digest.\<close>

lemma SignRequest_signature_is_digest:
  "SignRequest_signature hm c req =
   EncodeToString (hm (APISecret c)
     (Method req @ ''&'' @ QueryEscape (URL_String (URL req)) @ ''&'' @
      QueryEscape (SignRequest_params (snd (SignRequest_data c req)))))"
  by (simp add: SignRequest_signature_def SignRequest_sig_eq)

text \<open>Parameter sets that \<open>SignRequest\<close> builds itself have every key once.\<close>

lemma distinct_parseQuery: "distinct (map fst m) \<Longrightarrow> distinct (map fst (parseQuery m query))"
  by (induction m query rule: parseQuery.induct)
     (auto simp: parseQuery.simps distinct_store Let_def split: prod.splits option.splits)

lemma distinct_copyValues: "distinct (map fst dst) \<Longrightarrow> distinct (map fst (copyValues dst src))"
  by (induction dst src rule: copyValues.induct) (auto simp: distinct_store)

lemma distinct_SignRequest_data:
  assumes "Form req = None" and "PostForm req = None"
  shows "distinct (map fst (snd (SignRequest_data c req)))"
  using assms
  by (auto simp: SignRequest_data_def ParseForm_def parsePostForm_def Values_Set_def URL_Query_def
      ParseQuery_def Let_def distinct_store distinct_parseQuery distinct_copyValues
      split: option.splits prod.splits)





text \<open>The hexadecimal variant signs the path only, so there the query string of the URL may
  list the parameters in any order. The variant of lines 223-274 signs the whole URL, the
  query string of a GET request as it is written included: two such requests are the same
  URL only if their query strings are the same text.\<close>

lemma hex_signature_independent_of_order:
  assumes "Method req1 = Method req2" and "EscapedPath (URL req1) = EscapedPath (URL req2)"
    and "APISecret c1 = APISecret c2"
    and "set (URL_Query (URL req1)) = set (URL_Query (URL req2))"
  shows "SignRequest_hex_sig req1 = SignRequest_hex_sig req2 \<and>
         SignRequest_hex_signature hm c1 req1 = SignRequest_hex_signature hm c2 req2"
proof -
  let ?v = "URL_Query (URL req1)" and ?w = "URL_Query (URL req2)"
  have d: "distinct (map fst ?v)" "distinct (map fst ?w)"
    by (simp_all add: URL_Query_def ParseQuery_def distinct_parseQuery)
  then have "map_of ?v = map_of ?w"
    using assms(4) by (simp add: map_of_inject_set)
  then have "\<And>key. Values_Get ?v key = Values_Get ?w key"
    by (rule Values_Get_cong)
  then have "SignRequest_hex_params ?v = SignRequest_hex_params ?w"
    using sort_keys_cong [OF d assms(4)] by (simp add: SignRequest_hex_params_pairs)
  then show ?thesis
    using assms(1-3) by (simp add: SignRequest_hex_sig_def SignRequest_hex_signature_def)
qed

lemma written_query_is_signed_as_written:
  "SignRequest_params (snd (SignRequest_data test_client get_id_first)) =
   SignRequest_params (snd (SignRequest_data test_client get_format_first))
   \<and> SignRequest_sig test_client get_id_first \<noteq> SignRequest_sig test_client get_format_first
   \<and> SignRequest_hex_sig get_id_first = SignRequest_hex_sig get_format_first"
  by code_simp

subsection \<open>What the signed string is built from\<close>














subsection \<open>Parsing what \<open>Values.Encode\<close> wrote\<close>
























subsection \<open>Where the parameters are read from and written to\<close>










end
